theory Spec2Isabelle
  imports Complex_Main "HOL-Library.Word"
begin

unbundle bit_operations_syntax

text \<open>
  The program exists in two revisions: an earlier \<^verbatim>\<open>main.go\<close>, and a later one in which
  \<^verbatim>\<open>load_palette\<close> and \<^verbatim>\<open>remap\<close> read the palette from an \<^verbatim>\<open>io.Reader\<close> and \<^verbatim>\<open>identify\<close> takes
  custom palettes and the custom-only flag. The functions below follow the later
  revision, and line numbers refer to it. \<^verbatim>\<open>find_closest\<close> and \<^verbatim>\<open>has_palette\<close> are the same in
  both, as are the decoding in \<^verbatim>\<open>load_palette\<close> and the pixel loops and extension switch of
  \<^verbatim>\<open>remap\<close>.
\<close>

section \<open>Colours\<close>

text \<open>
  Go's \<^verbatim>\<open>color.RGBA\<close> is a struct of four bytes. \<^verbatim>\<open>color.Color\<close> is an interface whose
  only method used by the program is \<^verbatim>\<open>RGBA()\<close>, returning four \<^verbatim>\<open>uint32\<close>. A value of
  the interface is either a \<^verbatim>\<open>color.RGBA\<close> struct (what \<^verbatim>\<open>load_palette\<close> and
  \<^verbatim>\<open>find_closest\<close> build) or any other implementation, which is modelled by what its
  \<^verbatim>\<open>RGBA()\<close> method returns.
\<close>

type_synonym uint8 = "8 word"
type_synonym uint32 = "32 word"

record RGBA =
  R :: uint8
  G :: uint8
  B :: uint8
  A :: uint8

datatype Color =
    RGBA_Color RGBA
  | Other_Color "uint32 \<times> uint32 \<times> uint32 \<times> uint32"

text \<open>The method \<^verbatim>\<open>func (c RGBA) RGBA()\<close> of the standard library:
  \<^verbatim>\<open>r = uint32(c.R); r |= r << 8\<close>, and likewise for the other three channels.\<close>

definition widen :: "uint8 \<Rightarrow> uint32" where
  "widen v = (let r = (ucast v :: uint32) in r OR push_bit 8 r)"

definition RGBA_RGBA :: "RGBA \<Rightarrow> uint32 \<times> uint32 \<times> uint32 \<times> uint32" where
  "RGBA_RGBA c = (widen (R c), widen (G c), widen (B c), widen (A c))"

fun Color_RGBA :: "Color \<Rightarrow> uint32 \<times> uint32 \<times> uint32 \<times> uint32" where
  "Color_RGBA (RGBA_Color c) = RGBA_RGBA c"
| "Color_RGBA (Other_Color q) = q"

section \<open>Errors\<close>

datatype error =
    EOF
  | ErrUnexpectedEOF
  | ErrorString string
  | OSError string

section \<open>Palette Store: \<^verbatim>\<open>load_palette\<close>\<close>

text \<open>
  An \<^verbatim>\<open>io.Reader\<close> is modelled by the bytes it delivers before end of file.
  \<^verbatim>\<open>io.ReadFull(r, buf)\<close> fills \<^verbatim>\<open>buf\<close> completely or fails: with \<^verbatim>\<open>io.EOF\<close> when no byte
  was read, with \<^verbatim>\<open>io.ErrUnexpectedEOF\<close> when some but not all were.
\<close>

definition ReadFull :: "uint8 list \<Rightarrow> nat \<Rightarrow> error + uint8 list" where
  "ReadFull pal n =
     (if n \<le> length pal then Inr (take n pal)
      else if pal = [] then Inl EOF
      else Inl ErrUnexpectedEOF)"

definition PALETTE_SIZE :: nat where
  "PALETTE_SIZE = 64"

definition load_palette :: "uint8 list \<Rightarrow> error + Color list" where
  "load_palette pal =
     (case ReadFull pal (PALETTE_SIZE * 3) of
        Inl err \<Rightarrow> Inl err
      | Inr data \<Rightarrow>
          Inr (map (\<lambda>i. RGBA_Color
                 \<lparr>R = data ! (i * 3), G = data ! (i * 3 + 1), B = data ! (i * 3 + 2), A = 255\<rparr>)
               [0..<PALETTE_SIZE]))"

section \<open>Distance Metric and Nearest-Color Resolver: \<^verbatim>\<open>find_closest\<close>\<close>

text \<open>
  The loop body of \<^verbatim>\<open>find_closest\<close> works in \<^verbatim>\<open>float64\<close>. Every operand of the sum is
  an integer: \<^verbatim>\<open>pr>>8\<close> is below \<open>2^24\<close>, a difference of two such values is below \<open>2^24\<close>
  in magnitude, and the weighted sum of the three squares is below \<open>6 * 2^48 < 2^53\<close>, so
  every intermediate value up to the argument of \<^verbatim>\<open>math.Sqrt\<close> is represented exactly.
  The model computes in \<open>real\<close>. \<^verbatim>\<open>math.Sqrt\<close> is the real square root here; IEEE rounding of
  the root keeps the order of roots of distinct integers of that size, so the comparisons
  of the loop come out the same.
\<close>

definition float64 :: "uint32 \<Rightarrow> real" where
  "float64 v = real (unat v)"

definition MaxFloat64 :: real where
  "MaxFloat64 = (2 ^ 53 - 1) * 2 ^ 971"

text \<open>Lines 73 to 81 of the loop body: the value of the variable \<^verbatim>\<open>distance\<close>.\<close>

definition distance :: "Color \<Rightarrow> Color \<Rightarrow> real" where
  "distance c pcolor =
     (case Color_RGBA c of (cr, cg, cb, _) \<Rightarrow>
      case Color_RGBA pcolor of (pr, pg, pb, _) \<Rightarrow>
        let distancer = float64 (drop_bit 8 pr) - float64 (drop_bit 8 cr);
            distanceg = float64 (drop_bit 8 pg) - float64 (drop_bit 8 cg);
            distanceb = float64 (drop_bit 8 pb) - float64 (drop_bit 8 cb)
        in sqrt (2 * distancer * distancer + 3 * distanceg * distanceg
                 + 1 * distanceb * distanceb))"

text \<open>Line 85: \<^verbatim>\<open>color.RGBA{uint8(pr >> 8), uint8(pg >> 8), uint8(pb >> 8), 255}\<close>.\<close>

definition opaque_copy :: "Color \<Rightarrow> RGBA" where
  "opaque_copy pcolor =
     (case Color_RGBA pcolor of (pr, pg, pb, _) \<Rightarrow>
        \<lparr>R = ucast (drop_bit 8 pr), G = ucast (drop_bit 8 pg), B = ucast (drop_bit 8 pb),
         A = 255\<rparr>)"

text \<open>The \<^verbatim>\<open>range\<close> loop over the palette, with the two variables it updates.\<close>

fun find_closest_loop :: "Color \<Rightarrow> Color list \<Rightarrow> real \<Rightarrow> RGBA \<Rightarrow> RGBA" where
  "find_closest_loop c [] min_distance closest = closest"
| "find_closest_loop c (pcolor # p) min_distance closest =
     (if distance c pcolor < min_distance
      then find_closest_loop c p (distance c pcolor) (opaque_copy pcolor)
      else find_closest_loop c p min_distance closest)"

definition find_closest :: "Color \<Rightarrow> Color list \<Rightarrow> RGBA" where
  "find_closest c p = find_closest_loop c p MaxFloat64 \<lparr>R = 0, G = 0, B = 0, A = 0\<rparr>"

text \<open>
  The distance of section 4.2 of the specification, in the specification's words: the
  weighted sum of the squared channel differences, on the 8-bit channel values the code
  compares (the high byte of each 16-bit channel that \<^verbatim>\<open>RGBA()\<close> returns).
\<close>

definition chan :: "uint32 \<Rightarrow> int" where
  "chan v = int (unat (drop_bit 8 v))"

definition weighted_distance :: "Color \<Rightarrow> Color \<Rightarrow> int" where
  "weighted_distance a b =
     (case Color_RGBA a of (ar, ag, ab, _) \<Rightarrow>
      case Color_RGBA b of (br, bg, bb, _) \<Rightarrow>
        2 * (chan ar - chan br)\<^sup>2 + 3 * (chan ag - chan bg)\<^sup>2 + 1 * (chan ab - chan bb)\<^sup>2)"

section \<open>Images\<close>

text \<open>
  \<^verbatim>\<open>image.Point\<close> and \<^verbatim>\<open>image.Rectangle\<close> of the standard library. Go's \<^verbatim>\<open>int\<close> is modelled
  by \<open>int\<close>: the loop counters below run from a lower bound up to an upper bound of the
  same rectangle and never pass it, so no increment overflows.
\<close>

record Point =
  X :: int
  Y :: int

record Rectangle =
  Min_pt :: Point
  Max_pt :: Point

definition Dx :: "Rectangle \<Rightarrow> int" where
  "Dx r = X (Max_pt r) - X (Min_pt r)"

definition Dy :: "Rectangle \<Rightarrow> int" where
  "Dy r = Y (Max_pt r) - Y (Min_pt r)"

text \<open>\<^verbatim>\<open>func (p Point) In(r Rectangle) bool\<close>.\<close>

definition In :: "int \<Rightarrow> int \<Rightarrow> Rectangle \<Rightarrow> bool" where
  "In x y r \<longleftrightarrow>
     X (Min_pt r) \<le> x \<and> x < X (Max_pt r) \<and> Y (Min_pt r) \<le> y \<and> y < Y (Max_pt r)"

text \<open>The interface \<^verbatim>\<open>image.Image\<close>, with the two methods the program calls.\<close>

record Image =
  Bounds :: Rectangle
  At :: "int \<Rightarrow> int \<Rightarrow> Color"

text \<open>
  \<^verbatim>\<open>*image.RGBA\<close>: the rectangle and the pixel store. The store is a function of the
  coordinates; the layout of the byte slice \<^verbatim>\<open>Pix\<close> is not modelled.
\<close>

record RGBA_image =
  Rect :: Rectangle
  Pix :: "int \<times> int \<Rightarrow> RGBA"

datatype 'a outcome = Returns 'a | Panics string

text \<open>
  \<^verbatim>\<open>image.NewRGBA(r)\<close> allocates \<open>4 * Dx * Dy\<close> zero bytes. It panics when a dimension is
  negative or the byte count does not fit a 64-bit \<^verbatim>\<open>int\<close> (the library's
  \<^verbatim>\<open>mul3NonNeg\<close>, which also rejects an overflow of the partial product \<open>4 * Dx\<close>).
  \<open>Dx\<close> and \<open>Dy\<close> are differences of unbounded integers here; Go's wrap around only for
  rectangles whose width or height is \<open>2^63\<close> or more.
\<close>

definition huge_or_negative :: "Rectangle \<Rightarrow> bool" where
  "huge_or_negative r \<longleftrightarrow>
     Dx r < 0 \<or> Dy r < 0 \<or> 2 ^ 64 \<le> 4 * Dx r \<or> 2 ^ 63 \<le> 4 * Dx r * Dy r"

definition NewRGBA :: "Rectangle \<Rightarrow> RGBA_image outcome" where
  "NewRGBA r =
     (if huge_or_negative r
      then Panics ''image: NewRGBA Rectangle has huge or negative dimensions''
      else Returns \<lparr>Rect = r, Pix = (\<lambda>_. \<lparr>R = 0, G = 0, B = 0, A = 0\<rparr>)\<rparr>)"

text \<open>\<^verbatim>\<open>func (p *RGBA) Set(x, y int, c color.Color)\<close>, called with a \<^verbatim>\<open>color.RGBA\<close>, which
  the colour model leaves as it is; a point outside the rectangle is ignored.\<close>

definition Set_RGBA :: "RGBA_image \<Rightarrow> int \<Rightarrow> int \<Rightarrow> RGBA \<Rightarrow> RGBA_image" where
  "Set_RGBA m x y c = (if In x y (Rect m) then m\<lparr>Pix := (Pix m)((x, y) := c)\<rparr> else m)"

text \<open>\<^verbatim>\<open>func (p *RGBA) RGBAAt(x, y int) color.RGBA\<close>: the zero colour outside the rectangle.\<close>

definition RGBAAt :: "RGBA_image \<Rightarrow> int \<Rightarrow> int \<Rightarrow> RGBA" where
  "RGBAAt m x y = (if In x y (Rect m) then Pix m (x, y) else \<lparr>R = 0, G = 0, B = 0, A = 0\<rparr>)"

section \<open>Palette Verifier: \<^verbatim>\<open>has_palette\<close>\<close>

text \<open>
  The body of the inner loop, lines 97 to 103: \<open>True\<close> when the \<^verbatim>\<open>if\<close> does not fire, that
  is when the pixel's three 8-bit channels equal those of its nearest palette colour.
\<close>

definition pixel_matches :: "Image \<Rightarrow> Color list \<Rightarrow> int \<Rightarrow> int \<Rightarrow> bool" where
  "pixel_matches img p x y =
     (let c = find_closest (At img x y) p in
      case Color_RGBA (At img x y) of (rc16, gc16, bc16, _) \<Rightarrow>
        let rc = (ucast (drop_bit 8 rc16) :: uint8);
            gc = (ucast (drop_bit 8 gc16) :: uint8);
            bc = (ucast (drop_bit 8 bc16) :: uint8)
        in \<not> (rc \<noteq> R c \<or> gc \<noteq> G c \<or> bc \<noteq> B c))"

text \<open>
  The two loops. Each returns the verdict so far together with the coordinates at which
  \<^verbatim>\<open>img.At\<close> was called, in call order; the Go function returns the verdict only. The
  inner loop yields \<open>False\<close> when it executes \<^verbatim>\<open>return false\<close>, which leaves the whole
  function, and \<open>True\<close> when it runs to the end of the row.
\<close>

function has_palette_x ::
  "Image \<Rightarrow> Color list \<Rightarrow> int \<Rightarrow> int \<Rightarrow> bool \<times> (int \<times> int) list" where
  "has_palette_x img p y x =
     (if x < X (Max_pt (Bounds img)) then
        (if pixel_matches img p x y
         then (case has_palette_x img p y (x + 1) of (ok, visits) \<Rightarrow> (ok, (x, y) # visits))
         else (False, [(x, y)]))
      else (True, []))"
  by pat_completeness auto
termination
  by (relation "measure (\<lambda>(img, p, y, x). nat (X (Max_pt (Bounds img)) - x))") auto

function has_palette_y ::
  "Image \<Rightarrow> Color list \<Rightarrow> int \<Rightarrow> bool \<times> (int \<times> int) list" where
  "has_palette_y img p y =
     (if y < Y (Max_pt (Bounds img)) then
        (case has_palette_x img p y (X (Min_pt (Bounds img))) of
           (True, visits) \<Rightarrow>
             (case has_palette_y img p (y + 1) of (ok, rest) \<Rightarrow> (ok, visits @ rest))
         | (False, visits) \<Rightarrow> (False, visits))
      else (True, []))"
  by pat_completeness auto
termination
  by (relation "measure (\<lambda>(img, p, y). nat (Y (Max_pt (Bounds img)) - y))") auto

definition has_palette_scan :: "Image \<Rightarrow> Color list \<Rightarrow> bool \<times> (int \<times> int) list" where
  "has_palette_scan img p = has_palette_y img p (Y (Min_pt (Bounds img)))"

definition has_palette :: "Image \<Rightarrow> Color list \<Rightarrow> bool" where
  "has_palette img p = fst (has_palette_scan img p)"

definition visited :: "Image \<Rightarrow> Color list \<Rightarrow> (int \<times> int) list" where
  "visited img p = snd (has_palette_scan img p)"

text \<open>The pixels of a rectangle in the order of the two loops, row by row.\<close>

definition row_major :: "Rectangle \<Rightarrow> (int \<times> int) list" where
  "row_major r =
     concat (map (\<lambda>y. map (\<lambda>x. (x, y)) [X (Min_pt r) .. X (Max_pt r) - 1])
               [Y (Min_pt r) .. Y (Max_pt r) - 1])"

section \<open>Remap Engine: \<^verbatim>\<open>remap\<close>\<close>

text \<open>The two loops of lines 175 to 179, updating the image \<^verbatim>\<open>remapped\<close>.\<close>

function remap_x :: "Image \<Rightarrow> Color list \<Rightarrow> int \<Rightarrow> int \<Rightarrow> RGBA_image \<Rightarrow> RGBA_image" where
  "remap_x img p y x remapped =
     (if x < X (Max_pt (Bounds img))
      then remap_x img p y (x + 1) (Set_RGBA remapped x y (find_closest (At img x y) p))
      else remapped)"
  by pat_completeness auto
termination
  by (relation "measure (\<lambda>(img, p, y, x, remapped). nat (X (Max_pt (Bounds img)) - x))") auto

function remap_y :: "Image \<Rightarrow> Color list \<Rightarrow> int \<Rightarrow> RGBA_image \<Rightarrow> RGBA_image" where
  "remap_y img p y remapped =
     (if y < Y (Max_pt (Bounds img))
      then remap_y img p (y + 1) (remap_x img p y (X (Min_pt (Bounds img))) remapped)
      else remapped)"
  by pat_completeness auto
termination
  by (relation "measure (\<lambda>(img, p, y, remapped). nat (Y (Max_pt (Bounds img)) - y))") auto

text \<open>Lines 172 to 179: the image \<^verbatim>\<open>remapped\<close> that is handed to the encoder.\<close>

definition remap_image :: "Image \<Rightarrow> Color list \<Rightarrow> RGBA_image outcome" where
  "remap_image img p =
     (case NewRGBA (Bounds img) of
        Panics msg \<Rightarrow> Panics msg
      | Returns remapped \<Rightarrow> Returns (remap_y img p (Y (Min_pt (Bounds img))) remapped))"

text \<open>
  \<^verbatim>\<open>filepath.Ext\<close>: the suffix beginning at the last dot of the last path element, empty
  if there is none. The scan runs from the end of the path and stops at a separator
  (\<^verbatim>\<open>/\<close>).
\<close>

fun Ext_scan :: "string \<Rightarrow> string \<Rightarrow> string" where
  "Ext_scan [] suffix = []"
| "Ext_scan (ch # before) suffix =
     (if ch = CHR ''/'' then []
      else if ch = CHR ''.'' then ch # suffix
      else Ext_scan before (ch # suffix))"

definition Ext :: "string \<Rightarrow> string" where
  "Ext path = Ext_scan (rev path) []"

text \<open>
  What \<^verbatim>\<open>remap\<close> asks of the operating system and of the codecs: whether
  \<^verbatim>\<open>os.Create\<close> of a path fails, and whether \<^verbatim>\<open>png.Encode\<close> and \<^verbatim>\<open>jpeg.Encode\<close> of an image
  fail.
\<close>

record OS =
  Create :: "string \<Rightarrow> error option"
  png_Encode :: "RGBA_image \<Rightarrow> error option"
  jpeg_Encode :: "RGBA_image \<Rightarrow> error option"

text \<open>
  \<^verbatim>\<open>remap\<close>. \<^verbatim>\<open>remappedf.Name()\<close> is the path given to \<^verbatim>\<open>os.Create\<close>. The slice expression
  \<^verbatim>\<open>filepath.Ext(...)[1:]\<close> panics on the empty string.
\<close>

definition remap :: "OS \<Rightarrow> Image \<Rightarrow> uint8 list \<Rightarrow> string \<Rightarrow> (int \<times> error option) outcome" where
  "remap os img pal dst_path =
     (case load_palette pal of
        Inl err \<Rightarrow> Returns (1, Some err)
      | Inr p \<Rightarrow>
     (case Create os dst_path of
        Some err \<Rightarrow> Returns (1, Some err)
      | None \<Rightarrow>
     (case remap_image img p of
        Panics msg \<Rightarrow> Panics msg
      | Returns remapped \<Rightarrow>
     (case Ext dst_path of
        [] \<Rightarrow> Panics ''slice bounds out of range [1:0]''
      | _ # ext \<Rightarrow>
          if ext = ''png'' then
            (case png_Encode os remapped of Some err \<Rightarrow> Returns (1, Some err)
             | None \<Rightarrow> Returns (0, None))
          else if ext = ''jpg'' \<or> ext = ''jpeg'' then
            (case jpeg_Encode os remapped of Some err \<Rightarrow> Returns (1, Some err)
             | None \<Rightarrow> Returns (0, None))
          else Returns (2, Some (ErrorString ''Output type is not a supported format''))))))"

section \<open>Identification: \<^verbatim>\<open>identify\<close>\<close>

text \<open>An opened \<^verbatim>\<open>*os.File\<close>: its name and the bytes it delivers.\<close>

record File =
  Name :: string
  Data :: "uint8 list"

text \<open>The embedded file system \<^verbatim>\<open>palettes\<close>: directory listing and opening of a file.\<close>

record DirEntry =
  entry_Name :: string
  IsDir :: bool

record EmbedFS =
  ReadDir :: "string \<Rightarrow> error + DirEntry list"
  Open :: "string \<Rightarrow> error + uint8 list"

text \<open>\<^verbatim>\<open>strings.TrimSuffix\<close>, and \<^verbatim>\<open>filepath.Join\<close> of a directory and an entry name.\<close>

definition TrimSuffix :: "string \<Rightarrow> string \<Rightarrow> string" where
  "TrimSuffix s suffix =
     (if length suffix \<le> length s \<and> drop (length s - length suffix) s = suffix
      then take (length s - length suffix) s else s)"

definition Join :: "string \<Rightarrow> string \<Rightarrow> string" where
  "Join dir name = dir @ ''/'' @ name"

definition found_line :: "string \<Rightarrow> string" where
  "found_line name = ''The palette used in this image was: '' @ TrimSuffix name ''.pal''"

text \<open>
  The result of \<^verbatim>\<open>identify\<close> is the pair it returns together with the lines it prints.
  Each of the two loops gives \<open>Some\<close> result when it returns from the function and
  \<open>None\<close> when it runs to its end.
\<close>

type_synonym identify_result = "(int \<times> error option) \<times> string list"

fun identify_custom :: "Image \<Rightarrow> File list \<Rightarrow> identify_result option" where
  "identify_custom img [] = None"
| "identify_custom img (pal # custom_pals) =
     (case load_palette (Data pal) of
        Inl err \<Rightarrow> Some ((1, Some err), [])
      | Inr p \<Rightarrow>
          if has_palette img p then Some ((0, None), [found_line (Name pal)])
          else identify_custom img custom_pals)"

fun identify_builtin :: "EmbedFS \<Rightarrow> Image \<Rightarrow> DirEntry list \<Rightarrow> identify_result option" where
  "identify_builtin fs img [] = None"
| "identify_builtin fs img (entry # entries) =
     (let filename = entry_Name entry in
      if IsDir entry \<or> Ext filename \<noteq> ''.pal'' then identify_builtin fs img entries
      else
        (case Open fs (Join ''palettes'' filename) of
           Inl err \<Rightarrow> Some ((1, Some err), [])
         | Inr file \<Rightarrow>
        (case load_palette file of
           Inl err \<Rightarrow> Some ((1, Some err), [])
         | Inr p \<Rightarrow>
             if has_palette img p then Some ((0, None), [found_line filename])
             else identify_builtin fs img entries)))"

definition custom_only_error :: "string \<Rightarrow> error" where
  "custom_only_error ex =
     ErrorString (ex @ '': flag '' @ [CHR 0x27] @ ''custom-only'' @ [CHR 0x27]
                  @ '' reguires input color palettes'')"

definition identify ::
  "string \<Rightarrow> EmbedFS \<Rightarrow> Image \<Rightarrow> File list \<Rightarrow> bool \<Rightarrow> identify_result" where
  "identify ex fs img custom_pals custom_only =
     (case identify_custom img custom_pals of
        Some r \<Rightarrow> r
      | None \<Rightarrow>
          if custom_only \<and> length custom_pals > 0 then ((0, None), [])
          else if custom_only then ((2, Some (custom_only_error ex)), [])
          else
            (case ReadDir fs ''palettes'' of
               Inl err \<Rightarrow> ((1, Some err), [])
             | Inr entries \<Rightarrow>
            (case identify_builtin fs img entries of
               Some r \<Rightarrow> r
             | None \<Rightarrow> ((0, None), [''No palette matches this image colorscheme'']))))"

section \<open>The specification's notions\<close>

text \<open>
  The Color of the specification's data model is an RGB triple of 8 bits per channel;
  alpha is not part of it. \<open>rgb8\<close> reads that triple off a Go colour the way the code
  does, as the high bytes of the 16-bit channels.
\<close>

definition rgb8 :: "Color \<Rightarrow> uint8 \<times> uint8 \<times> uint8" where
  "rgb8 c =
     (case Color_RGBA c of (r, g, b, _) \<Rightarrow>
        (ucast (drop_bit 8 r), ucast (drop_bit 8 g), ucast (drop_bit 8 b)))"

text \<open>Two images are pixel-identical when they have the same bounds and the same Color
  at every position of these bounds.\<close>

definition pixel_identical :: "RGBA_image \<Rightarrow> Image \<Rightarrow> bool" where
  "pixel_identical m img \<longleftrightarrow>
     Rect m = Bounds img
     \<and> list_all (\<lambda>(x, y). rgb8 (RGBA_Color (RGBAAt m x y)) = rgb8 (At img x y))
         (row_major (Bounds img))"

section \<open>Auxiliary notions for the proofs\<close>

text \<open>The prefix of a list up to and including its first element that fails a test.\<close>

definition upto_first_mismatch :: "('a \<Rightarrow> bool) \<Rightarrow> 'a list \<Rightarrow> 'a list" where
  "upto_first_mismatch ok xs = takeWhile ok xs @ take 1 (dropWhile ok xs)"

definition ok_at :: "Image \<Rightarrow> Color list \<Rightarrow> int \<times> int \<Rightarrow> bool" where
  "ok_at img p = (\<lambda>(x, y). pixel_matches img p x y)"

definition row_from :: "Image \<Rightarrow> int \<Rightarrow> int \<Rightarrow> (int \<times> int) list" where
  "row_from img y x = map (\<lambda>x. (x, y)) [x .. X (Max_pt (Bounds img)) - 1]"

definition rows_from :: "Image \<Rightarrow> int \<Rightarrow> (int \<times> int) list" where
  "rows_from img y =
     concat (map (\<lambda>y. row_from img y (X (Min_pt (Bounds img)))) [y .. Y (Max_pt (Bounds img)) - 1])"


section \<open>Example inputs\<close>

text \<open>A row of two pixels, the first \<open>(10,10,10)\<close> and the second black, and a palette
  of black and white.\<close>

definition two_pixels :: Image where
  "two_pixels =
     \<lparr>Bounds = \<lparr>Min_pt = \<lparr>X = 0, Y = 0\<rparr>, Max_pt = \<lparr>X = 2, Y = 1\<rparr>\<rparr>,
      At = (\<lambda>x y. if x = 0 then RGBA_Color \<lparr>R = 10, G = 10, B = 10, A = 255\<rparr>
                   else RGBA_Color \<lparr>R = 0, G = 0, B = 0, A = 255\<rparr>)\<rparr>"

definition black_white :: "Color list" where
  "black_white =
     [RGBA_Color \<lparr>R = 0, G = 0, B = 0, A = 255\<rparr>, RGBA_Color \<lparr>R = 255, G = 255, B = 255, A = 255\<rparr>]"


text \<open>A single black pixel; the palette source of the specification's scenarios A and B
  (black, white, and 62 further entries, here white) and the palette it decodes to; an
  operating system on which no call fails.\<close>

definition one_black :: Image where
  "one_black =
     \<lparr>Bounds = \<lparr>Min_pt = \<lparr>X = 0, Y = 0\<rparr>, Max_pt = \<lparr>X = 1, Y = 1\<rparr>\<rparr>,
      At = (\<lambda>x y. RGBA_Color \<lparr>R = 0, G = 0, B = 0, A = 255\<rparr>)\<rparr>"

definition scenario_bytes :: "uint8 list" where
  "scenario_bytes = [0, 0, 0, 255, 255, 255] @ replicate 186 255"

definition scenario_palette :: "Color list" where
  "scenario_palette =
     RGBA_Color \<lparr>R = 0, G = 0, B = 0, A = 255\<rparr>
     # replicate 63 (RGBA_Color \<lparr>R = 255, G = 255, B = 255, A = 255\<rparr>)"

definition os_ok :: OS where
  "os_ok = \<lparr>Create = (\<lambda>_. None), png_Encode = (\<lambda>_. None), jpeg_Encode = (\<lambda>_. None)\<rparr>"


text \<open>An embedded file system that holds a licence file and the scenario palette.\<close>

definition scenario_fs :: EmbedFS where
  "scenario_fs =
     \<lparr>ReadDir = (\<lambda>_. Inr [\<lparr>entry_Name = ''COPYING'', IsDir = False\<rparr>,
                           \<lparr>entry_Name = ''scenario.pal'', IsDir = False\<rparr>]),
      Open = (\<lambda>path. if path = ''palettes/scenario.pal'' then Inr scenario_bytes
                     else Inl (OSError ''file does not exist''))\<rparr>"


section \<open>Properties of the palette store\<close>

lemma ReadFull_short:
  "length pal < n \<Longrightarrow> ReadFull pal n = Inl (if pal = [] then EOF else ErrUnexpectedEOF)"
  by (simp add: ReadFull_def)

text \<open>
  Claim C5. A byte source with fewer than 192 bytes makes \<^verbatim>\<open>load_palette\<close> fail: with
  \<^verbatim>\<open>io.EOF\<close> when the source is empty, with \<^verbatim>\<open>io.ErrUnexpectedEOF\<close> otherwise. The result
  is never a palette, of any length.
\<close>

theorem load_palette_short:
  "length pal < 192 \<Longrightarrow>
     load_palette pal = Inl (if pal = [] then EOF else ErrUnexpectedEOF)
     \<and> (\<forall>p. load_palette pal \<noteq> Inr p)"
  by (simp add: load_palette_def PALETTE_SIZE_def ReadFull_short)

theorem load_palette_short_witness:
  "length (replicate 100 (7 :: uint8)) < 192
   \<and> load_palette (replicate 100 7) = Inl ErrUnexpectedEOF
   \<and> (\<forall>p. load_palette (replicate 100 7) \<noteq> Inr p)"
  using load_palette_short [of "replicate 100 (7 :: uint8)"] by simp

section \<open>Properties of the resolver\<close>

subsection \<open>Channels of a \<^verbatim>\<open>color.RGBA\<close>\<close>

lemma drop_widen: "drop_bit 8 (widen v) = (ucast v :: uint32)"
  unfolding widen_def Let_def
  by (rule bit_word_eqI) (auto simp add: bit_simps dest: bit_imp_le_length)

lemma unat_widen: "unat (drop_bit 8 (widen v)) = unat v"
proof -
  have "unat v < 2 ^ 8" using unsigned_less [of v, where 'a = nat] by simp
  then show ?thesis by (simp add: drop_widen unsigned_ucast_eq take_bit_eq_mod)
qed

lemma widen_drop: "ucast (drop_bit 8 (widen v)) = v"
  unfolding drop_widen
  by (rule bit_word_eqI) (auto simp add: bit_simps dest: bit_imp_le_length)

lemma opaque_copy_RGBA: "opaque_copy (RGBA_Color v) = v\<lparr>A := 255\<rparr>"
  by (simp add: opaque_copy_def RGBA_RGBA_def widen_drop)

lemma distance_sqrt: "distance c e = sqrt (real_of_int (weighted_distance c e))"
  by (simp add: distance_def weighted_distance_def chan_def float64_def power2_eq_square
      split: prod.splits) (simp add: algebra_simps)

lemma chan_bounds: "0 \<le> chan v" "chan v < 2 ^ 24"
proof -
  show "0 \<le> chan v" by (simp add: chan_def)
  have "unat v < 2 ^ 32" using unsigned_less [of v, where 'a = nat] by simp
  then have "unat v div 2 ^ 8 < 2 ^ 24" by simp
  then show "chan v < 2 ^ 24"
    by (simp add: chan_def drop_bit_eq_div unat_div)
qed

lemma chan_diff_sq: "(chan v - chan w)\<^sup>2 \<le> 2 ^ 48"
proof -
  have "\<bar>chan v - chan w\<bar> \<le> 2 ^ 24"
    using chan_bounds [of v] chan_bounds [of w] by linarith
  then have "\<bar>chan v - chan w\<bar>\<^sup>2 \<le> (2 ^ 24)\<^sup>2"
    by (rule power_mono) simp
  then show ?thesis by simp
qed

lemma weighted_distance_bounds:
  "0 \<le> weighted_distance a b" "weighted_distance a b \<le> 6 * 2 ^ 48"
proof -
  obtain ar ag ab aa where a: "Color_RGBA a = (ar, ag, ab, aa)" by (cases "Color_RGBA a") auto
  obtain br bg bb ba where b: "Color_RGBA b = (br, bg, bb, ba)" by (cases "Color_RGBA b") auto
  show "0 \<le> weighted_distance a b"
    by (simp add: weighted_distance_def a b)
  show "weighted_distance a b \<le> 6 * 2 ^ 48"
    using chan_diff_sq [of ar br] chan_diff_sq [of ag bg] chan_diff_sq [of ab bb]
    by (simp add: weighted_distance_def a b)
qed

lemma distance_less_MaxFloat64: "distance c e < MaxFloat64"
proof -
  let ?w = "real_of_int (weighted_distance c e)"
  have w0: "0 \<le> ?w" using weighted_distance_bounds(1) [of c e] by simp
  have "?w \<le> real_of_int (6 * 2 ^ 48)"
    using weighted_distance_bounds(2) [of c e] by (simp only: of_int_le_iff)
  then have w1: "?w \<le> 6 * 2 ^ 48" by simp
  have "sqrt ?w \<le> sqrt ((2 ^ 26)\<^sup>2)"
    using w1 by (intro real_sqrt_le_mono) simp
  then have "sqrt ?w \<le> 2 ^ 26" by simp
  moreover have "(2 ^ 26 :: real) < MaxFloat64"
    by (simp add: MaxFloat64_def)
  ultimately show ?thesis by (simp add: distance_sqrt)
qed

lemma distance_mono:
  "distance c e < distance c f \<longleftrightarrow> weighted_distance c e < weighted_distance c f"
  "distance c e \<le> distance c f \<longleftrightarrow> weighted_distance c e \<le> weighted_distance c f"
  by (simp_all add: distance_sqrt)

lemma find_closest_loop_keep:
  "\<forall>e \<in> set p. min_distance \<le> distance c e \<Longrightarrow>
   find_closest_loop c p min_distance closest = closest"
  by (induction p) auto

lemma find_closest_loop_first_min:
  "i < length p \<Longrightarrow> distance c (p ! i) < min_distance \<Longrightarrow>
   \<forall>j < length p. distance c (p ! i) \<le> distance c (p ! j) \<Longrightarrow>
   \<forall>j < i. distance c (p ! i) < distance c (p ! j) \<Longrightarrow>
   find_closest_loop c p min_distance closest = opaque_copy (p ! i)"
proof (induction p arbitrary: i min_distance closest)
  case Nil
  then show ?case by simp
next
  case (Cons e p)
  show ?case
  proof (cases i)
    case 0
    have "\<forall>f \<in> set p. distance c e \<le> distance c f"
    proof
      fix f assume "f \<in> set p"
      then obtain j where "j < length p" "p ! j = f" by (auto simp: in_set_conv_nth)
      with Cons.prems(3) [rule_format, of "Suc j"] 0 show "distance c e \<le> distance c f"
        by simp
    qed
    then have "find_closest_loop c p (distance c e) (opaque_copy e) = opaque_copy e"
      by (rule find_closest_loop_keep)
    with Cons.prems(2) 0 show ?thesis by simp
  next
    case (Suc k)
    have k: "k < length p" using Cons.prems(1) Suc by simp
    have least: "\<forall>j < length p. distance c (p ! k) \<le> distance c (p ! j)"
    proof (intro allI impI)
      fix j assume "j < length p"
      with Cons.prems(3) [rule_format, of "Suc j"] Suc
      show "distance c (p ! k) \<le> distance c (p ! j)" by simp
    qed
    have first: "\<forall>j < k. distance c (p ! k) < distance c (p ! j)"
    proof (intro allI impI)
      fix j assume "j < k"
      with Cons.prems(4) [rule_format, of "Suc j"] Suc
      show "distance c (p ! k) < distance c (p ! j)" by simp
    qed
    have head: "distance c (p ! k) < distance c e"
      using Cons.prems(4) [rule_format, of 0] Suc by simp
    show ?thesis
    proof (cases "distance c e < min_distance")
      case True
      then show ?thesis
        using Cons.IH [OF k head least first] Suc by simp
    next
      case False
      have "distance c (p ! k) < min_distance" using Cons.prems(2) Suc by simp
      then show ?thesis
        using False Cons.IH [OF k _ least first] Suc by simp
    qed
  qed
qed

lemma chan_widen: "chan (widen v) = uint v"
  unfolding chan_def unat_widen by simp

lemma wd_RGBA:
  "weighted_distance (RGBA_Color a) (RGBA_Color b) =
     2 * (uint (R a) - uint (R b))\<^sup>2 + 3 * (uint (G a) - uint (G b))\<^sup>2
     + 1 * (uint (B a) - uint (B b))\<^sup>2"
  by (simp add: weighted_distance_def RGBA_RGBA_def chan_widen)

text \<open>
  Claim C1. The specification's distance is the weighted sum of squares with no square
  root, and the comment in the loop says the same. The loop body passes the sum to
  \<^verbatim>\<open>math.Sqrt\<close>: between the colours \<open>(0,0,0)\<close> and \<open>(0,0,2)\<close> the variable
  \<^verbatim>\<open>distance\<close> is 2, where the weighted sum of squares is 4.
\<close>

theorem distance_applies_sqrt:
  "distance (RGBA_Color \<lparr>R = 0, G = 0, B = 0, A = 255\<rparr>)
            (RGBA_Color \<lparr>R = 0, G = 0, B = 2, A = 255\<rparr>) = 2
   \<and> weighted_distance (RGBA_Color \<lparr>R = 0, G = 0, B = 0, A = 255\<rparr>)
            (RGBA_Color \<lparr>R = 0, G = 0, B = 2, A = 255\<rparr>) = 4"
  by (simp add: distance_sqrt wd_RGBA)

text \<open>
  Claim C6. When the entry at index \<open>i\<close> attains the minimum weighted distance to \<open>c\<close>
  and no entry before it does, \<^verbatim>\<open>find_closest\<close> returns the opaque copy of that entry,
  whatever number of later entries attain the same distance.
\<close>

theorem find_closest_first_min:
  "i < length p \<Longrightarrow>
   \<forall>j < length p. weighted_distance c (p ! i) \<le> weighted_distance c (p ! j) \<Longrightarrow>
   \<forall>j < i. weighted_distance c (p ! j) \<noteq> weighted_distance c (p ! i) \<Longrightarrow>
   find_closest c p = opaque_copy (p ! i)"
proof -
  assume i: "i < length p"
    and least: "\<forall>j < length p. weighted_distance c (p ! i) \<le> weighted_distance c (p ! j)"
    and first: "\<forall>j < i. weighted_distance c (p ! j) \<noteq> weighted_distance c (p ! i)"
  have l: "\<forall>j < length p. distance c (p ! i) \<le> distance c (p ! j)"
    using least by (simp add: distance_mono)
  have f: "\<forall>j < i. distance c (p ! i) < distance c (p ! j)"
  proof (intro allI impI)
    fix j assume j: "j < i"
    then have "j < length p" using i by simp
    with least have "weighted_distance c (p ! i) \<le> weighted_distance c (p ! j)" by simp
    with first j have "weighted_distance c (p ! i) < weighted_distance c (p ! j)" by fastforce
    then show "distance c (p ! i) < distance c (p ! j)" by (simp add: distance_mono)
  qed
  show ?thesis
    unfolding find_closest_def
    by (rule find_closest_loop_first_min [OF i distance_less_MaxFloat64 l f])
qed

theorem find_closest_first_min_witness:
  "weighted_distance (RGBA_Color \<lparr>R = 0, G = 0, B = 0, A = 255\<rparr>)
     (RGBA_Color \<lparr>R = 0, G = 0, B = 2, A = 255\<rparr>) = 4
   \<and> weighted_distance (RGBA_Color \<lparr>R = 0, G = 0, B = 0, A = 255\<rparr>)
     (RGBA_Color \<lparr>R = 0, G = 1, B = 1, A = 255\<rparr>) = 4
   \<and> find_closest (RGBA_Color \<lparr>R = 0, G = 0, B = 0, A = 255\<rparr>)
     [RGBA_Color \<lparr>R = 255, G = 255, B = 255, A = 255\<rparr>,
      RGBA_Color \<lparr>R = 0, G = 0, B = 2, A = 255\<rparr>,
      RGBA_Color \<lparr>R = 0, G = 1, B = 1, A = 255\<rparr>]
     = \<lparr>R = 0, G = 0, B = 2, A = 255\<rparr>"
  using find_closest_first_min [of 1
     "[RGBA_Color \<lparr>R = 255, G = 255, B = 255, A = 255\<rparr>,
       RGBA_Color \<lparr>R = 0, G = 0, B = 2, A = 255\<rparr>,
       RGBA_Color \<lparr>R = 0, G = 1, B = 1, A = 255\<rparr>]"
     "RGBA_Color \<lparr>R = 0, G = 0, B = 0, A = 255\<rparr>"]
  by (simp add: wd_RGBA opaque_copy_RGBA less_Suc_eq numeral_3_eq_3)


text \<open>
  Claim C10. \<^verbatim>\<open>find_closest\<close> has no failure path. On the empty palette the loop body never
  runs and the zero value of \<^verbatim>\<open>color.RGBA\<close>, all four channels 0, is returned.
\<close>

theorem find_closest_empty:
  "find_closest c [] = \<lparr>R = 0, G = 0, B = 0, A = 0\<rparr>"
  by (simp add: find_closest_def)

lemmas find_closest_eval =
  find_closest_def distance_less_MaxFloat64 distance_mono wd_RGBA opaque_copy_RGBA

section \<open>Properties of the verifier\<close>

lemma upto_first_mismatch_Nil: "upto_first_mismatch ok [] = []"
  by (simp add: upto_first_mismatch_def)

lemma upto_first_mismatch_Cons:
  "upto_first_mismatch ok (a # xs) = (if ok a then a # upto_first_mismatch ok xs else [a])"
  by (simp add: upto_first_mismatch_def)

lemma upto_first_mismatch_all: "list_all ok xs \<Longrightarrow> upto_first_mismatch ok xs = xs"
  by (induction xs) (simp_all add: upto_first_mismatch_Nil upto_first_mismatch_Cons)

lemma upto_first_mismatch_append:
  "upto_first_mismatch ok (xs @ ys) =
     (if list_all ok xs then xs @ upto_first_mismatch ok ys else upto_first_mismatch ok xs)"
  by (induction xs) (simp_all add: upto_first_mismatch_Nil upto_first_mismatch_Cons)

lemma row_from_rec:
  "row_from img y x =
     (if x < X (Max_pt (Bounds img)) then (x, y) # row_from img y (x + 1) else [])"
  by (simp add: row_from_def upto_rec1)

declare has_palette_x.simps [simp del] has_palette_y.simps [simp del]

lemma has_palette_x_eq:
  "has_palette_x img p y x =
     (list_all (ok_at img p) (row_from img y x),
      upto_first_mismatch (ok_at img p) (row_from img y x))"
proof (induction img p y x rule: has_palette_x.induct)
  case (1 img p y x)
  show ?case
  proof (cases "x < X (Max_pt (Bounds img))")
    case False
    then show ?thesis
      by (subst has_palette_x.simps, subst (1 2) row_from_rec)
         (simp add: upto_first_mismatch_Nil)
  next
    case True
    show ?thesis
    proof (cases "pixel_matches img p x y")
      case False
      with True show ?thesis
        by (subst has_palette_x.simps, subst (1 2) row_from_rec)
           (simp add: upto_first_mismatch_Cons ok_at_def)
    next
      case m: True
      with True "1.IH" show ?thesis
        by (subst has_palette_x.simps, subst (1 2) row_from_rec)
           (simp add: upto_first_mismatch_Cons ok_at_def)
    qed
  qed
qed

lemma rows_from_rec:
  "rows_from img y =
     (if y < Y (Max_pt (Bounds img))
      then row_from img y (X (Min_pt (Bounds img))) @ rows_from img (y + 1) else [])"
  by (simp add: rows_from_def upto_rec1)

lemma has_palette_y_eq:
  "has_palette_y img p y =
     (list_all (ok_at img p) (rows_from img y),
      upto_first_mismatch (ok_at img p) (rows_from img y))"
proof (induction img p y rule: has_palette_y.induct)
  case (1 img p y)
  show ?case
  proof (cases "y < Y (Max_pt (Bounds img))")
    case False
    then show ?thesis
      by (subst has_palette_y.simps, subst (1 2) rows_from_rec)
         (simp add: upto_first_mismatch_Nil)
  next
    case True
    show ?thesis
    proof (cases "list_all (ok_at img p) (row_from img y (X (Min_pt (Bounds img))))")
      case False
      with True show ?thesis
        by (subst has_palette_y.simps, subst (1 2) rows_from_rec)
           (simp add: has_palette_x_eq upto_first_mismatch_append)
    next
      case r: True
      have "has_palette_x img p y (X (Min_pt (Bounds img))) =
              (True, row_from img y (X (Min_pt (Bounds img))))"
        using r by (simp add: has_palette_x_eq upto_first_mismatch_all)
      with True r "1.IH" [OF True this [symmetric] refl] show ?thesis
        by (subst has_palette_y.simps, subst (1 2) rows_from_rec)
           (simp add: upto_first_mismatch_append)
    qed
  qed
qed

lemma rows_from_Min: "rows_from img (Y (Min_pt (Bounds img))) = row_major (Bounds img)"
  by (simp add: rows_from_def row_major_def row_from_def)

lemma set_row_major: "set (row_major r) = {(x, y). In x y r}"
  by (auto simp add: row_major_def In_def)

lemma pixel_matches_rgb8: "pixel_matches img p x y \<longleftrightarrow>
   rgb8 (RGBA_Color (find_closest (At img x y) p)) = rgb8 (At img x y)"
  by (auto simp add: pixel_matches_def rgb8_def RGBA_RGBA_def widen_drop Let_def split: prod.splits)

lemma rgb8_RGBA: "rgb8 (RGBA_Color v) = (R v, G v, B v)"
  by (simp add: rgb8_def RGBA_RGBA_def widen_drop)

lemma has_palette_list_all:
  "has_palette img p \<longleftrightarrow> list_all (ok_at img p) (row_major (Bounds img))"
  by (simp add: has_palette_def has_palette_scan_def has_palette_y_eq rows_from_Min)

text \<open>
  Claim C2. \<^verbatim>\<open>has_palette\<close> returns true exactly when, for every pixel inside the bounds,
  the colour that \<^verbatim>\<open>find_closest\<close> returns for it has the pixel's own 8-bit red, green and
  blue; alpha plays no part. The calls of \<^verbatim>\<open>img.At\<close> are the pixels in row-major order up
  to and including the first one whose nearest colour differs from it; none after it is
  visited.
\<close>

theorem has_palette_iff:
  "(has_palette img p \<longleftrightarrow>
      (\<forall>x y. In x y (Bounds img) \<longrightarrow>
         rgb8 (RGBA_Color (find_closest (At img x y) p)) = rgb8 (At img x y)))
   \<and> visited img p =
       takeWhile (\<lambda>(x, y). rgb8 (RGBA_Color (find_closest (At img x y) p)) = rgb8 (At img x y))
         (row_major (Bounds img))
       @ take 1
          (dropWhile
            (\<lambda>(x, y). rgb8 (RGBA_Color (find_closest (At img x y) p)) = rgb8 (At img x y))
            (row_major (Bounds img)))"
proof -
  have ok: "ok_at img p =
      (\<lambda>(x, y). rgb8 (RGBA_Color (find_closest (At img x y) p)) = rgb8 (At img x y))"
    by (simp add: ok_at_def pixel_matches_rgb8)
  have "has_palette img p \<longleftrightarrow> list_all (ok_at img p) (row_major (Bounds img))"
    by (rule has_palette_list_all)
  also have "\<dots> \<longleftrightarrow>
      (\<forall>x y. In x y (Bounds img) \<longrightarrow>
         rgb8 (RGBA_Color (find_closest (At img x y) p)) = rgb8 (At img x y))"
    by (auto simp add: list_all_iff set_row_major ok)
  finally have a: "has_palette img p \<longleftrightarrow>
      (\<forall>x y. In x y (Bounds img) \<longrightarrow>
         rgb8 (RGBA_Color (find_closest (At img x y) p)) = rgb8 (At img x y))" .
  have b: "visited img p = upto_first_mismatch (ok_at img p) (row_major (Bounds img))"
    by (simp add: visited_def has_palette_scan_def has_palette_y_eq rows_from_Min)
  show ?thesis
    using a b by (simp add: upto_first_mismatch_def ok)
qed

theorem has_palette_iff_witness:
  "has_palette one_black black_white \<and> visited one_black black_white = [(0, 0)]
   \<and> \<not> has_palette two_pixels black_white \<and> visited two_pixels black_white = [(0, 0)]"
proof -
  have at1: "\<And>x y. At one_black x y = RGBA_Color \<lparr>R = 0, G = 0, B = 0, A = 255\<rparr>"
    by (simp add: one_black_def)
  have fc1: "find_closest (RGBA_Color \<lparr>R = 0, G = 0, B = 0, A = 255\<rparr>) black_white
               = \<lparr>R = 0, G = 0, B = 0, A = 255\<rparr>"
    by (simp add: black_white_def find_closest_eval)
  have r1: "row_major (Bounds one_black) = [(0, 0)]"
    by (simp add: one_black_def row_major_def upto_rec1)
  have pos: "has_palette one_black black_white \<and> visited one_black black_white = [(0, 0)]"
    using has_palette_iff [of one_black black_white]
    by (simp add: at1 fc1 r1 rgb8_RGBA)
  have at2: "At two_pixels 0 0 = RGBA_Color \<lparr>R = 10, G = 10, B = 10, A = 255\<rparr>"
    by (simp add: two_pixels_def)
  have fc2: "find_closest (RGBA_Color \<lparr>R = 10, G = 10, B = 10, A = 255\<rparr>) black_white
               = \<lparr>R = 0, G = 0, B = 0, A = 255\<rparr>"
    by (simp add: black_white_def find_closest_eval)
  have m: "rgb8 (RGBA_Color (find_closest (At two_pixels 0 0) black_white))
             \<noteq> rgb8 (At two_pixels 0 0)"
    by (simp add: at2 fc2 rgb8_RGBA)
  have i: "In 0 0 (Bounds two_pixels)"
    by (simp add: In_def two_pixels_def)
  have r2: "row_major (Bounds two_pixels) = [(0, 0), (1, 0)]"
    by (simp add: two_pixels_def row_major_def upto_rec1)
  have neg: "\<not> has_palette two_pixels black_white \<and> visited two_pixels black_white = [(0, 0)]"
    using has_palette_iff [of two_pixels black_white] m i
    by (auto simp add: r2)
  show ?thesis using pos neg by simp
qed

section \<open>Properties of the remap engine\<close>

declare remap_x.simps [simp del] remap_y.simps [simp del]

lemma remap_x_Rect: "Rect (remap_x img p y x m) = Rect m"
proof (induction img p y x m rule: remap_x.induct)
  case (1 img p y x m)
  then show ?case
    by (subst remap_x.simps) (simp add: Set_RGBA_def)
qed

lemma remap_x_Pix:
  "Pix (remap_x img p y x m) (a, b) =
     (if b = y \<and> x \<le> a \<and> a < X (Max_pt (Bounds img)) \<and> In a b (Rect m)
      then find_closest (At img a b) p else Pix m (a, b))"
proof (induction img p y x m rule: remap_x.induct)
  case (1 img p y x m)
  show ?case
  proof (cases "x < X (Max_pt (Bounds img))")
    case False
    then show ?thesis by (subst remap_x.simps) auto
  next
    case True
    then show ?thesis
      using "1.IH" [OF True]
      by (subst remap_x.simps) (auto simp add: Set_RGBA_def)
  qed
qed

lemma remap_y_Rect: "Rect (remap_y img p y m) = Rect m"
proof (induction img p y m rule: remap_y.induct)
  case (1 img p y m)
  then show ?case
    by (subst remap_y.simps) (simp add: remap_x_Rect)
qed

lemma remap_y_Pix:
  "Pix (remap_y img p y m) (a, b) =
     (if y \<le> b \<and> b < Y (Max_pt (Bounds img))
         \<and> X (Min_pt (Bounds img)) \<le> a \<and> a < X (Max_pt (Bounds img)) \<and> In a b (Rect m)
      then find_closest (At img a b) p else Pix m (a, b))"
proof (induction img p y m rule: remap_y.induct)
  case (1 img p y m)
  show ?case
  proof (cases "y < Y (Max_pt (Bounds img))")
    case False
    then show ?thesis by (subst remap_y.simps) auto
  next
    case True
    then show ?thesis
      using "1.IH" [OF True]
      by (subst remap_y.simps) (auto simp add: remap_x_Pix remap_x_Rect)
  qed
qed

lemma remap_image_Returns:
  "\<not> huge_or_negative (Bounds img) \<Longrightarrow>
   \<exists>m. remap_image img p = Returns m \<and> Rect m = Bounds img
       \<and> (\<forall>x y. In x y (Bounds img) \<longrightarrow> RGBAAt m x y = find_closest (At img x y) p)"
  by (simp add: remap_image_def NewRGBA_def remap_y_Rect RGBAAt_def remap_y_Pix In_def)

lemma remap_image_Panics:
  "huge_or_negative (Bounds img) \<Longrightarrow> \<exists>msg. remap_image img p = Panics msg"
  by (simp add: remap_image_def NewRGBA_def)

lemma load_scenario: "load_palette scenario_bytes = Inr scenario_palette"
  unfolding load_palette_def ReadFull_def PALETTE_SIZE_def scenario_bytes_def scenario_palette_def
  by code_simp

lemma find_closest_scenario:
  "weighted_distance c (RGBA_Color \<lparr>R = 0, G = 0, B = 0, A = 255\<rparr>)
     \<le> weighted_distance c (RGBA_Color \<lparr>R = 255, G = 255, B = 255, A = 255\<rparr>) \<Longrightarrow>
   find_closest c scenario_palette = \<lparr>R = 0, G = 0, B = 0, A = 255\<rparr>"
  by (simp add: scenario_palette_def find_closest_def distance_less_MaxFloat64
      find_closest_loop_keep distance_mono opaque_copy_RGBA)

lemma not_huge_one_black: "\<not> huge_or_negative (Bounds one_black)"
  by (simp add: huge_or_negative_def one_black_def Dx_def Dy_def)

lemma not_huge_two_pixels: "\<not> huge_or_negative (Bounds two_pixels)"
  by (simp add: huge_or_negative_def two_pixels_def Dx_def Dy_def)

lemma has_palette_one_black: "has_palette one_black scenario_palette"
proof -
  have "row_major (Bounds one_black) = [(0, 0)]"
    by (simp add: one_black_def row_major_def upto_rec1)
  moreover have "At one_black 0 0 = RGBA_Color \<lparr>R = 0, G = 0, B = 0, A = 255\<rparr>"
    by (simp add: one_black_def)
  ultimately show ?thesis
    by (simp add: has_palette_list_all ok_at_def pixel_matches_rgb8 rgb8_RGBA
        find_closest_scenario wd_RGBA)
qed

lemma not_has_palette_two_pixels: "\<not> has_palette two_pixels scenario_palette"
proof -
  have "row_major (Bounds two_pixels) = [(0, 0), (1, 0)]"
    by (simp add: two_pixels_def row_major_def upto_rec1)
  moreover have "At two_pixels 0 0 = RGBA_Color \<lparr>R = 10, G = 10, B = 10, A = 255\<rparr>"
    by (simp add: two_pixels_def)
  ultimately show ?thesis
    by (simp add: has_palette_list_all ok_at_def pixel_matches_rgb8 rgb8_RGBA
        find_closest_scenario wd_RGBA)
qed

text \<open>
  Claim C3. When \<^verbatim>\<open>image.NewRGBA\<close> accepts the bounds, the remapped image exists, and
  \<^verbatim>\<open>has_palette\<close> is true exactly when that image is pixel-identical to the input: same
  bounds and the same 8-bit red, green and blue at every position.
\<close>

theorem has_palette_iff_remap_identical:
  "\<not> huge_or_negative (Bounds img) \<Longrightarrow>
   \<exists>m. remap_image img p = Returns m \<and> (has_palette img p \<longleftrightarrow> pixel_identical m img)"
proof -
  assume "\<not> huge_or_negative (Bounds img)"
  then obtain m where m: "remap_image img p = Returns m" "Rect m = Bounds img"
    and px: "\<forall>x y. In x y (Bounds img) \<longrightarrow> RGBAAt m x y = find_closest (At img x y) p"
    using remap_image_Returns [of img p] by blast
  have "has_palette img p \<longleftrightarrow> list_all (ok_at img p) (row_major (Bounds img))"
    by (rule has_palette_list_all)
  also have "\<dots> \<longleftrightarrow> pixel_identical m img"
    using m(2) px
    by (auto simp add: pixel_identical_def list_all_iff set_row_major ok_at_def pixel_matches_rgb8)
  finally show ?thesis using m(1) by blast
qed

theorem has_palette_iff_remap_identical_witness:
  "\<not> huge_or_negative (Bounds one_black)
   \<and> has_palette one_black scenario_palette
   \<and> (\<exists>m. remap_image one_black scenario_palette = Returns m \<and> pixel_identical m one_black)"
  using has_palette_iff_remap_identical [OF not_huge_one_black, of scenario_palette]
    not_huge_one_black has_palette_one_black
  by auto

lemma find_closest_loop_member:
  "find_closest_loop c p min_distance closest = closest
   \<or> (\<exists>e \<in> set p. find_closest_loop c p min_distance closest = opaque_copy e)"
proof (induction p arbitrary: min_distance closest)
  case Nil
  then show ?case by simp
next
  case (Cons e p)
  show ?case
  proof (cases "distance c e < min_distance")
    case True
    with Cons.IH [of "distance c e" "opaque_copy e"] show ?thesis by auto
  next
    case False
    with Cons.IH [of min_distance closest] show ?thesis by auto
  qed
qed

lemma find_closest_member:
  "p \<noteq> [] \<Longrightarrow> \<exists>e \<in> set p. find_closest c p = opaque_copy e"
proof (cases p)
  case Nil
  assume "p \<noteq> []"
  with Nil show ?thesis by simp
next
  case (Cons e q)
  have "find_closest c p = find_closest_loop c q (distance c e) (opaque_copy e)"
    by (simp add: Cons find_closest_def distance_less_MaxFloat64)
  with find_closest_loop_member [of c q "distance c e" "opaque_copy e"] Cons
  show ?thesis by auto
qed

lemma load_palette_entries:
  "load_palette pal = Inr p \<Longrightarrow>
   length p = 64 \<and> (\<forall>e \<in> set p. \<exists>v. e = RGBA_Color v \<and> A v = 255)"
  by (auto simp add: load_palette_def PALETTE_SIZE_def split: sum.splits)

lemma find_closest_in_loaded:
  "load_palette pal = Inr p \<Longrightarrow> RGBA_Color (find_closest c p) \<in> set p"
proof -
  assume l: "load_palette pal = Inr p"
  then have "p \<noteq> []" using load_palette_entries [OF l] by auto
  then obtain e where e: "e \<in> set p" "find_closest c p = opaque_copy e"
    using find_closest_member by blast
  then obtain v where v: "e = RGBA_Color v" "A v = 255"
    using load_palette_entries [OF l] by blast
  then have "opaque_copy e = v" by (simp add: opaque_copy_RGBA)
  with e v show ?thesis by simp
qed

text \<open>
  For an image whose pixels are opaque \<^verbatim>\<open>color.RGBA\<close> values and a palette that is not
  empty, identity on the 8-bit channels is equality of the colour values, alpha included.
\<close>

lemma opaque_copy_A: "A (opaque_copy e) = 255"
  by (simp add: opaque_copy_def split: prod.splits)

lemma has_palette_iff_remap_equal_opaque:
  assumes "\<not> huge_or_negative (Bounds img)" and "p \<noteq> []"
    and "\<forall>x y. In x y (Bounds img) \<longrightarrow> (\<exists>v. At img x y = RGBA_Color v \<and> A v = 255)"
  shows "\<exists>m. remap_image img p = Returns m
           \<and> (has_palette img p \<longleftrightarrow>
                (\<forall>x y. In x y (Bounds img) \<longrightarrow> RGBA_Color (RGBAAt m x y) = At img x y))"
proof -
  obtain m where m: "remap_image img p = Returns m"
    and px: "\<forall>x y. In x y (Bounds img) \<longrightarrow> RGBAAt m x y = find_closest (At img x y) p"
    using remap_image_Returns [OF assms(1), of p] by blast
  have "pixel_matches img p x y \<longleftrightarrow> RGBA_Color (RGBAAt m x y) = At img x y"
    if i: "In x y (Bounds img)" for x y
  proof -
    obtain v where v: "At img x y = RGBA_Color v" "A v = 255"
      using assms(3) i by blast
    obtain e where "find_closest (At img x y) p = opaque_copy e"
      using find_closest_member [OF assms(2)] by blast
    then have "A (find_closest (At img x y) p) = 255"
      by (simp add: opaque_copy_A)
    with v px i show ?thesis
      by (auto simp add: pixel_matches_rgb8 rgb8_RGBA)
  qed
  then have "has_palette img p \<longleftrightarrow>
      (\<forall>x y. In x y (Bounds img) \<longrightarrow> RGBA_Color (RGBAAt m x y) = At img x y)"
    by (auto simp add: has_palette_list_all list_all_iff set_row_major ok_at_def)
  with m show ?thesis by blast
qed

text \<open>
  Claim C7. For a palette decoded by \<^verbatim>\<open>load_palette\<close> and bounds that \<^verbatim>\<open>image.NewRGBA\<close>
  accepts, the remapped image has the bounds of the input, and each of its pixels inside
  the bounds is, as a \<^verbatim>\<open>color.RGBA\<close> value with all four channels, an entry of the palette.
\<close>

theorem remap_closure:
  "load_palette pal = Inr p \<Longrightarrow> \<not> huge_or_negative (Bounds img) \<Longrightarrow>
   \<exists>m. remap_image img p = Returns m \<and> Rect m = Bounds img
       \<and> (\<forall>x y. In x y (Bounds img) \<longrightarrow> RGBA_Color (RGBAAt m x y) \<in> set p)"
proof -
  assume l: "load_palette pal = Inr p" and b: "\<not> huge_or_negative (Bounds img)"
  obtain m where m: "remap_image img p = Returns m" "Rect m = Bounds img"
    and px: "\<forall>x y. In x y (Bounds img) \<longrightarrow> RGBAAt m x y = find_closest (At img x y) p"
    using remap_image_Returns [OF b, of p] by blast
  have "\<forall>x y. In x y (Bounds img) \<longrightarrow> RGBA_Color (RGBAAt m x y) \<in> set p"
    using px find_closest_in_loaded [OF l] by simp
  with m show ?thesis by blast
qed


theorem remap_closure_witness:
  "load_palette scenario_bytes = Inr scenario_palette
   \<and> \<not> huge_or_negative (Bounds two_pixels)
   \<and> (\<exists>m. remap_image two_pixels scenario_palette = Returns m
          \<and> Rect m = Bounds two_pixels
          \<and> RGBA_Color (RGBAAt m 0 0) \<in> set scenario_palette
          \<and> RGBA_Color (RGBAAt m 1 0) \<in> set scenario_palette)"
proof -
  have i: "In 0 0 (Bounds two_pixels)" "In 1 0 (Bounds two_pixels)"
    by (simp_all add: In_def two_pixels_def)
  show ?thesis
    using remap_closure [OF load_scenario not_huge_two_pixels] i load_scenario not_huge_two_pixels
    by blast
qed

lemma Ext_out: "Ext ''out'' = []"
  by (simp add: Ext_def)

lemma remap_unsupported_extension:
  "load_palette pal = Inr p \<Longrightarrow> Create os dst_path = None \<Longrightarrow>
   \<not> huge_or_negative (Bounds img) \<Longrightarrow> Ext dst_path = dot # ext \<Longrightarrow>
   ext \<notin> {''png'', ''jpg'', ''jpeg''} \<Longrightarrow>
   remap os img pal dst_path =
     Returns (2, Some (ErrorString ''Output type is not a supported format''))"
proof -
  assume a: "load_palette pal = Inr p" "Create os dst_path = None"
    "Ext dst_path = dot # ext" "ext \<notin> {''png'', ''jpg'', ''jpeg''}"
  assume "\<not> huge_or_negative (Bounds img)"
  then obtain m where "remap_image img p = Returns m"
    using remap_image_Returns by blast
  with a show ?thesis
    by (simp add: remap_def)
qed

text \<open>
  Claim C4. An output path whose extension is not \<^verbatim>\<open>png\<close>, \<^verbatim>\<open>jpg\<close> or \<^verbatim>\<open>jpeg\<close> should make
  \<^verbatim>\<open>remap\<close> return the unsupported-format error. For a path without any extension
  \<^verbatim>\<open>filepath.Ext\<close> is empty and the slice \<^verbatim>\<open>[1:]\<close> of it panics: with a well-formed palette,
  a one-pixel image and the path \<^verbatim>\<open>out\<close>, \<^verbatim>\<open>remap\<close> does not return.
\<close>

theorem remap_no_extension_panics:
  "remap os_ok one_black scenario_bytes ''out'' = Panics ''slice bounds out of range [1:0]''"
proof -
  obtain m where "remap_image one_black scenario_palette = Returns m"
    using remap_image_Returns [OF not_huge_one_black] by blast
  then show ?thesis
    by (simp add: remap_def load_scenario os_ok_def Ext_out)
qed



section \<open>Properties of identification\<close>

text \<open>
  Claim C8. In custom-only mode with no custom palette, \<^verbatim>\<open>identify\<close> returns status 2 with
  the error about the flag, which is neither of the two decode errors, and prints
  nothing. The result is the same for every embedded file system, including those whose
  listing fails or whose palettes are malformed: the built-in palettes are not consulted.
\<close>

theorem identify_custom_only_empty:
  "identify ex fs img [] True = ((2, Some (custom_only_error ex)), [])
   \<and> custom_only_error ex \<noteq> EOF \<and> custom_only_error ex \<noteq> ErrUnexpectedEOF"
  by (simp add: identify_def custom_only_error_def)

lemma identify_custom_none:
  "\<forall>f \<in> set custom_pals. \<exists>p. load_palette (Data f) = Inr p \<and> \<not> has_palette img p \<Longrightarrow>
   identify_custom img custom_pals = None"
  by (induction custom_pals) auto

lemma identify_builtin_none:
  "\<forall>e \<in> set entries. \<not> IsDir e \<and> Ext (entry_Name e) = ''.pal'' \<longrightarrow>
     (\<exists>file p. Open fs (Join ''palettes'' (entry_Name e)) = Inr file
        \<and> load_palette file = Inr p \<and> \<not> has_palette img p) \<Longrightarrow>
   identify_builtin fs img entries = None"
  by (induction entries) (auto simp add: Let_def)

text \<open>
  What holds of a run in which no candidate verifies the image, outside custom-only mode
  with no custom palette: when every custom palette decodes and does not verify and,
  unless custom-only is set, the embedded directory can be listed and each of its
  \<^verbatim>\<open>.pal\<close> files opens, decodes and does not verify, \<^verbatim>\<open>identify\<close> returns status 0 and no
  error, and in default mode it prints that no palette matches.
\<close>

lemma identify_no_match:
  assumes "\<not> (custom_only \<and> custom_pals = [])"
    and "\<forall>f \<in> set custom_pals. \<exists>p. load_palette (Data f) = Inr p \<and> \<not> has_palette img p"
    and "\<not> custom_only \<Longrightarrow>
         \<exists>entries. ReadDir fs ''palettes'' = Inr entries
           \<and> (\<forall>e \<in> set entries. \<not> IsDir e \<and> Ext (entry_Name e) = ''.pal'' \<longrightarrow>
                 (\<exists>file p. Open fs (Join ''palettes'' (entry_Name e)) = Inr file
                    \<and> load_palette file = Inr p \<and> \<not> has_palette img p))"
  shows "fst (identify ex fs img custom_pals custom_only) = (0, None)
         \<and> (\<not> custom_only \<longrightarrow>
              snd (identify ex fs img custom_pals custom_only)
                = [''No palette matches this image colorscheme''])"
proof (cases custom_only)
  case True
  with assms(1) have "custom_pals \<noteq> []" by simp
  with True identify_custom_none [OF assms(2)] show ?thesis
    by (simp add: identify_def)
next
  case False
  with assms(3) obtain entries where e: "ReadDir fs ''palettes'' = Inr entries"
    and n: "\<forall>e \<in> set entries. \<not> IsDir e \<and> Ext (entry_Name e) = ''.pal'' \<longrightarrow>
                 (\<exists>file p. Open fs (Join ''palettes'' (entry_Name e)) = Inr file
                    \<and> load_palette file = Inr p \<and> \<not> has_palette img p)"
    by blast
  from False e identify_custom_none [OF assms(2)] identify_builtin_none [OF n]
  show ?thesis
    by (simp add: identify_def)
qed

text \<open>
  Claim C9. A run in which no candidate verifies the image should succeed and carry the
  negative verdict. In custom-only mode with one custom palette that does not verify the
  image, \<^verbatim>\<open>identify\<close> returns status 0 and no error but prints nothing: line 124 returns
  without the \<^verbatim>\<open>println\<close> that the default path executes on line 155 for the same image
  and palette.
\<close>

theorem identify_custom_only_no_match_silent:
  "identify ''nespal'' scenario_fs two_pixels
     [\<lparr>Name = ''mine.pal'', Data = scenario_bytes\<rparr>] True = ((0, None), [])
   \<and> identify ''nespal'' scenario_fs two_pixels
     [\<lparr>Name = ''mine.pal'', Data = scenario_bytes\<rparr>] False
       = ((0, None), [''No palette matches this image colorscheme''])"
proof -
  have c: "identify_custom two_pixels [\<lparr>Name = ''mine.pal'', Data = scenario_bytes\<rparr>] = None"
    by (simp add: load_scenario not_has_palette_two_pixels)
  have x: "Ext ''COPYING'' = []" "Ext ''scenario.pal'' = ''.pal''"
    by (simp_all add: Ext_def)
  have b: "identify_builtin scenario_fs two_pixels
             [\<lparr>entry_Name = ''COPYING'', IsDir = False\<rparr>,
              \<lparr>entry_Name = ''scenario.pal'', IsDir = False\<rparr>] = None"
    by (simp add: x Join_def scenario_fs_def load_scenario not_has_palette_two_pixels)
  have r: "ReadDir scenario_fs ''palettes''
             = Inr [\<lparr>entry_Name = ''COPYING'', IsDir = False\<rparr>,
                    \<lparr>entry_Name = ''scenario.pal'', IsDir = False\<rparr>]"
    by (simp add: scenario_fs_def)
  show ?thesis
    by (simp add: identify_def c b r del: identify_custom.simps identify_builtin.simps)
qed

end
